theory Spec2Isabelle
  imports Complex_Main
begin

section \<open>Channels\<close>

text \<open>
  The room service coordinates its goroutines through Go channels. A channel is modelled
  by its buffered elements (oldest first), its capacity and whether it has been closed.
  Every function below is one critical section of the source (the bodies run under
  \<^verbatim>\<open>mu\<close> or \<^verbatim>\<open>mx\<close>), so the mutexes themselves carry no state here.
\<close>

record 'a chan =
  chan_buf :: "'a list"
  chan_cap :: nat
  chan_closed :: bool

definition make_chan :: "nat \<Rightarrow> 'a chan" where
  "make_chan n = \<lparr>chan_buf = [], chan_cap = n, chan_closed = False\<rparr>"

text \<open>The run-time panics of the Go operations that the room code performs unguarded.\<close>

datatype panic = SendOnClosedChannel | CloseOfClosedChannel | AssignToNilMap

text \<open>
  A call either returns with the state it leaves behind, or panics; a panic carries the
  state reached at the moment it is raised.
\<close>

datatype 's outcome = Return 's | Panic panic 's

fun state_of :: "'s outcome \<Rightarrow> 's" where
  "state_of (Return s) = s"
| "state_of (Panic p s) = s"

fun returns :: "'s outcome \<Rightarrow> bool" where
  "returns (Return s) = True"
| "returns (Panic p s) = False"

text \<open>
  \<^verbatim>\<open>select { case ch <- x: ...; default: ... }\<close>: the send case is taken when the
  channel is closed (and then panics) or has room in its buffer; otherwise the default
  case runs. No receiver is taken to be parked on the channel.
\<close>

datatype 'a try_send = Sent "'a chan" | SendPanics | SendWouldBlock

definition chan_try_send :: "'a \<Rightarrow> 'a chan \<Rightarrow> 'a try_send" where
  "chan_try_send x ch =
     (if chan_closed ch then SendPanics
      else if length (chan_buf ch) < chan_cap ch then Sent (ch\<lparr>chan_buf := chan_buf ch @ [x]\<rparr>)
      else SendWouldBlock)"

text \<open>
  \<^verbatim>\<open>select { case <-ch: ...; default: ... }\<close>: the receive case is taken when a
  buffered element is waiting (it is removed) or when the channel is closed and drained
  (the zero value is delivered); otherwise the default case runs.
\<close>

datatype 'a try_recv = Received 'a "'a chan" | ReceivedClosed | RecvWouldBlock

definition chan_try_recv :: "'a chan \<Rightarrow> 'a try_recv" where
  "chan_try_recv ch =
     (case chan_buf ch of
        x # xs \<Rightarrow> Received x (ch\<lparr>chan_buf := xs\<rparr>)
      | [] \<Rightarrow> if chan_closed ch then ReceivedClosed else RecvWouldBlock)"

text \<open>\<^verbatim>\<open>close(ch)\<close> panics on a channel that is already closed.\<close>

definition chan_close :: "'a chan \<Rightarrow> panic + 'a chan" where
  "chan_close ch =
     (if chan_closed ch then Inl CloseOfClosedChannel else Inr (ch\<lparr>chan_closed := True\<rparr>))"

section \<open>Messages\<close>

type_synonym cid = nat \<comment> \<open>the address of a \<^verbatim>\<open>Client\<close> object\<close>
type_synonym rid = nat \<comment> \<open>the address of a \<^verbatim>\<open>Room\<close> object\<close>
type_synonym time = int \<comment> \<open>an instant of \<^verbatim>\<open>time.Time\<close>\<close>

definition CommandPlay :: string where "CommandPlay = ''play''"
definition CommandPause :: string where "CommandPause = ''pause''"
definition CommandSeek :: string where "CommandSeek = ''seek''"
definition CommandSync :: string where "CommandSync = ''sync''"
definition CommandError :: string where "CommandError = ''error''"
definition CommandVideoChange :: string where "CommandVideoChange = ''change-video''"

text \<open>
  \<^verbatim>\<open>Message\<close>: \<open>From\<close> is a possibly nil pointer to the sending client; \<open>Time\<close>
  is a \<^verbatim>\<open>float64\<close> that the service only stores and compares with zero.
\<close>

record Message =
  Type :: string
  From :: "cid option"
  Time :: real
  Timestamp :: time
  payload :: string

subsection \<open>Wire form\<close>

text \<open>
  \<^verbatim>\<open>json.Marshal\<close> walks the exported fields of the struct in declaration order and
  obeys their tags: \<open>Type\<close> is written under \<^verbatim>\<open>"type"\<close>, \<open>From\<close> is tagged
  \<^verbatim>\<open>json:"-"\<close> and skipped, \<open>Time\<close> is written under \<^verbatim>\<open>"time"\<close> unless it is
  zero (\<^verbatim>\<open>omitempty\<close>), \<open>Timestamp\<close> is written under \<^verbatim>\<open>"timestamp"\<close>, and
  \<open>payload\<close> is unexported and skipped. The rendering of the resulting object to bytes
  is the library's; it is a parameter \<open>enc\<close>, which may fail.
\<close>

datatype jvalue = JString string | JNumber real | JTime time

definition Message_fields :: "Message \<Rightarrow> (string \<times> jvalue) list" where
  "Message_fields m =
     [(''type'', JString (Type m))] @
     (if Time m = 0 then [] else [(''time'', JNumber (Time m))]) @
     [(''timestamp'', JTime (Timestamp m))]"

definition json_Marshal :: "((string \<times> jvalue) list \<Rightarrow> string option) \<Rightarrow> Message \<Rightarrow> string option" where
  "json_Marshal enc m = enc (Message_fields m)"

datatype ws_frame = TextMessage string | PingMessage

text \<open>
  The message branch of \<^verbatim>\<open>Client.sendHandler\<close>: the frame handed to
  \<^verbatim>\<open>WriteMessage\<close> for a message taken from the outbound queue; on a marshalling
  error nothing is written and the loop continues.
\<close>

definition sendHandler_frame :: "((string \<times> jvalue) list \<Rightarrow> string option) \<Rightarrow> Message \<Rightarrow> ws_frame option" where
  "sendHandler_frame enc msg =
     (case json_Marshal enc msg of
        None \<Rightarrow> None
      | Some data \<Rightarrow> Some (TextMessage data))"

section \<open>Clients\<close>

record Conn =
  conn_closed :: bool

definition Conn_Close :: "Conn \<Rightarrow> Conn" where
  "Conn_Close c = c\<lparr>conn_closed := True\<rparr>"

text \<open>
  \<^verbatim>\<open>Client\<close>: the connection and the outbound queue \<open>send\<close>. The owning room is
  fixed at creation; the functions below take it from the state they run in.
\<close>

record Client =
  Conn :: Conn
  send :: "Message chan"

text \<open>
  \<^verbatim>\<open>Client.close\<close>: a non-blocking receive on \<open>send\<close> decides whether the queue is
  closed; only when the receive is not ready is the queue closed. The connection is
  closed in every case.
\<close>

definition Client_close :: "Client \<Rightarrow> Client outcome" where
  "Client_close c =
     (case chan_try_recv (send c) of
        Received m ch \<Rightarrow> Return (c\<lparr>send := ch, Conn := Conn_Close (Conn c)\<rparr>)
      | ReceivedClosed \<Rightarrow> Return (c\<lparr>Conn := Conn_Close (Conn c)\<rparr>)
      | RecvWouldBlock \<Rightarrow>
          (case chan_close (send c) of
             Inl p \<Rightarrow> Panic p c
           | Inr ch \<Rightarrow> Return (c\<lparr>send := ch, Conn := Conn_Close (Conn c)\<rparr>)))"

subsection \<open>Inbound loop\<close>

text \<open>The command kinds that the validation switch of \<^verbatim>\<open>receiveHandler\<close> lets through.\<close>

definition recognized :: "string \<Rightarrow> bool" where
  "recognized t \<longleftrightarrow>
     t = CommandPlay \<or> t = CommandPause \<or> t = CommandSeek \<or> t = CommandSync \<or>
     t = CommandVideoChange"

text \<open>
  One pass of the loop body of \<^verbatim>\<open>Client.receiveHandler\<close> on the bytes of a frame
  read at instant \<open>now\<close>. \<open>unmarshal\<close> is \<^verbatim>\<open>json.Unmarshal\<close> into a fresh
  \<^verbatim>\<open>Message\<close>. The result is the message sent to the room's \<open>message\<close> channel,
  or \<open>None\<close> when the body ends in \<^verbatim>\<open>continue\<close>.
\<close>

definition receiveFrame :: "(string \<Rightarrow> Message option) \<Rightarrow> cid \<Rightarrow> time \<Rightarrow> string \<Rightarrow> Message option" where
  "receiveFrame unmarshal c now data =
     (case unmarshal data of
        None \<Rightarrow> None
      | Some msg \<Rightarrow>
          if recognized (Type msg) then Some (msg\<lparr>From := Some c, Timestamp := now\<rparr>)
          else None)"

datatype read_result = ReadError | Data string

text \<open>
  The loop of \<^verbatim>\<open>Client.receiveHandler\<close> over the successive results of
  \<^verbatim>\<open>ReadMessage\<close>, each with the instant at which it is handled; the result lists the
  messages submitted to the room, in order. The loop ends at the first read error (the
  read deadline makes a silent connection fail its read).
\<close>

fun receiveHandler :: "(string \<Rightarrow> Message option) \<Rightarrow> cid \<Rightarrow> (time \<times> read_result) list \<Rightarrow> Message list" where
  "receiveHandler unmarshal c [] = []"
| "receiveHandler unmarshal c ((now, ReadError) # rest) = []"
| "receiveHandler unmarshal c ((now, Data d) # rest) =
     (case receiveFrame unmarshal c now d of
        None \<Rightarrow> receiveHandler unmarshal c rest
      | Some msg \<Rightarrow> msg # receiveHandler unmarshal c rest)"

section \<open>Rooms\<close>

text \<open>
  \<^verbatim>\<open>Room\<close>: \<open>clients\<close> is the Go map used as a set of client pointers; \<open>None\<close>
  is the nil map, \<open>Some cs\<close> a map with the keys \<open>cs\<close>, listed in the order in which
  \<^verbatim>\<open>range\<close> visits them. \<open>ctx_done\<close> tells whether \<^verbatim>\<open>cancel\<close> has been called.
\<close>

record Room =
  register :: "cid chan"
  unregister :: "cid chan"
  message :: "Message chan"
  clients :: "cid list option"
  ctx_done :: bool
  cleaned :: bool

definition NewRoom :: Room where
  "NewRoom =
     \<lparr>register = make_chan 0, unregister = make_chan 10, message = make_chan 10,
      clients = Some [], ctx_done = False, cleaned = False\<rparr>"

text \<open>
  A room runs against the store of client objects it points to. \<open>running\<close> lists the
  clients whose two handler goroutines have been started by \<^verbatim>\<open>client.run()\<close>.
\<close>

record world =
  heap :: "cid \<Rightarrow> Client"
  room :: Room
  running :: "cid list"

definition ClientCount :: "world \<Rightarrow> nat" where
  "ClientCount w = (case clients (room w) of None \<Rightarrow> 0 | Some cs \<Rightarrow> length cs)"

text \<open>\<^verbatim>\<open>Room.cleanup\<close>: the loop over the client set.\<close>

fun cleanup_loop :: "cid list \<Rightarrow> (cid \<Rightarrow> Client) \<Rightarrow> (cid \<Rightarrow> Client) outcome" where
  "cleanup_loop [] h = Return h"
| "cleanup_loop (c # cs) h =
     (case chan_close (send (h c)) of
        Inl p \<Rightarrow> Panic p h
      | Inr ch \<Rightarrow> cleanup_loop cs (h(c := (h c)\<lparr>send := ch, Conn := Conn_Close (Conn (h c))\<rparr>)))"

definition cleanup :: "world \<Rightarrow> world outcome" where
  "cleanup w =
     (if cleaned (room w) then Return w
      else
        let w1 = w\<lparr>room := (room w)\<lparr>cleaned := True\<rparr>\<rparr> in
        case cleanup_loop (case clients (room w1) of None \<Rightarrow> [] | Some cs \<Rightarrow> cs) (heap w1) of
          Panic p h \<Rightarrow> Panic p (w1\<lparr>heap := h\<rparr>)
        | Return h \<Rightarrow> Return (w1\<lparr>heap := h, room := (room w1)\<lparr>clients := None\<rparr>\<rparr>))"

text \<open>\<^verbatim>\<open>Room.registerClient\<close>: a store into the nil map panics.\<close>

definition registerClient :: "cid \<Rightarrow> world \<Rightarrow> world outcome" where
  "registerClient client w =
     (case clients (room w) of
        None \<Rightarrow> Panic AssignToNilMap w
      | Some cs \<Rightarrow>
          Return (w\<lparr>room := (room w)\<lparr>clients := Some (if client \<in> set cs then cs else cs @ [client])\<rparr>,
                    running := running w @ [client]\<rparr>))"

text \<open>\<^verbatim>\<open>Room.unregisterClient\<close>: a lookup in the nil map finds nothing.\<close>

definition unregisterClient :: "cid \<Rightarrow> world \<Rightarrow> world outcome" where
  "unregisterClient client w =
     (case clients (room w) of
        None \<Rightarrow> Return w
      | Some cs \<Rightarrow>
          if client \<in> set cs then
            let cs' = removeAll client cs;
                w1 = w\<lparr>room := (room w)\<lparr>clients := Some cs'\<rparr>\<rparr>
            in case Client_close (heap w1 client) of
                 Panic p cl \<Rightarrow> Panic p (w1\<lparr>heap := (heap w1)(client := cl)\<rparr>)
               | Return cl \<Rightarrow>
                   let w2 = w1\<lparr>heap := (heap w1)(client := cl)\<rparr>
                   in Return (if cs' = [] then w2\<lparr>room := (room w2)\<lparr>ctx_done := True\<rparr>\<rparr> else w2)
          else Return w)"

text \<open>
  \<^verbatim>\<open>Room.sendMessage\<close>: the \<^verbatim>\<open>select\<close> executed for one client that is not the
  sender, and the loop over the client set.
\<close>

definition sendMessage_select :: "Message \<Rightarrow> Client \<Rightarrow> Client outcome" where
  "sendMessage_select msg cl =
     (case chan_try_send msg (send cl) of
        Sent ch \<Rightarrow> Return (cl\<lparr>send := ch\<rparr>)
      | SendPanics \<Rightarrow> Panic SendOnClosedChannel cl
      | SendWouldBlock \<Rightarrow> Client_close cl)"

fun sendMessage_loop :: "Message \<Rightarrow> cid list \<Rightarrow> (cid \<Rightarrow> Client) \<Rightarrow> (cid \<Rightarrow> Client) outcome" where
  "sendMessage_loop msg [] h = Return h"
| "sendMessage_loop msg (c # cs) h =
     (if From msg = Some c then sendMessage_loop msg cs h
      else
        case sendMessage_select msg (h c) of
          Panic p cl \<Rightarrow> Panic p (h(c := cl))
        | Return cl \<Rightarrow> sendMessage_loop msg cs (h(c := cl)))"

definition sendMessage :: "Message \<Rightarrow> world \<Rightarrow> world outcome" where
  "sendMessage msg w =
     (case sendMessage_loop msg (case clients (room w) of None \<Rightarrow> [] | Some cs \<Rightarrow> cs) (heap w) of
        Panic p h \<Rightarrow> Panic p (w\<lparr>heap := h\<rparr>)
      | Return h \<Rightarrow> Return (w\<lparr>heap := h\<rparr>))"

text \<open>
  Both \<^verbatim>\<open>Client.sendHandler\<close> and \<^verbatim>\<open>Client.receiveHandler\<close> end with a deferred
  \<^verbatim>\<open>c.close()\<close>, which runs in the handler's goroutine whether or not the room still
  holds the client.
\<close>

definition deferred_close :: "cid \<Rightarrow> world \<Rightarrow> world outcome" where
  "deferred_close c w =
     (case Client_close (heap w c) of
        Panic p cl \<Rightarrow> Panic p (w\<lparr>heap := (heap w)(c := cl)\<rparr>)
      | Return cl \<Rightarrow> Return (w\<lparr>heap := (heap w)(c := cl)\<rparr>))"

text \<open>
  \<^verbatim>\<open>Room.Run\<close>: the event loop, over the requests that its \<^verbatim>\<open>select\<close> takes, in
  the order in which it takes them. \<open>Done\<close> stands for the case
  \<^verbatim>\<open><-r.ctx.Done()\<close>, which is ready only once the context is cancelled; the loop
  ends with it. When several cases are ready the \<^verbatim>\<open>select\<close> takes any of them, so a
  request may be served after the cancellation and before \<open>Done\<close>. A panic ends the loop.
\<close>

datatype request = Register cid | Unregister cid | Broadcast Message | Done

fun Run :: "request list \<Rightarrow> world \<Rightarrow> world outcome" where
  "Run [] w = Return w"
| "Run (Register client # rs) w =
     (case registerClient client w of Panic p w' \<Rightarrow> Panic p w' | Return w' \<Rightarrow> Run rs w')"
| "Run (Unregister client # rs) w =
     (case unregisterClient client w of Panic p w' \<Rightarrow> Panic p w' | Return w' \<Rightarrow> Run rs w')"
| "Run (Broadcast msg # rs) w =
     (case sendMessage msg w of Panic p w' \<Rightarrow> Panic p w' | Return w' \<Rightarrow> Run rs w')"
| "Run (Done # rs) w = (if ctx_done (room w) then cleanup w else Run rs w)"

section \<open>Hub\<close>

text \<open>
  The directory and the room objects it points to. The program has one hub, the global
  \<^verbatim>\<open>hub\<close>, whose map is made at start-up, so the directory is never the nil map. A
  room's address is its position in \<open>room_heap\<close>, so allocation appends. \<open>loops\<close> lists
  the rooms whose event loop has been started by \<^verbatim>\<open>Run\<close>, \<open>watchers\<close> the goroutines
  that wait for a room's context to remove its key from the directory. In \<open>getRoom\<close> the
  second lookup is the double check made under the write lock.
\<close>

record hub_world =
  Rooms :: "string \<rightharpoonup> rid"
  room_heap :: "Room list"
  loops :: "rid list"
  watchers :: "(rid \<times> string) list"

definition getRoom :: "string \<Rightarrow> hub_world \<Rightarrow> rid option \<times> hub_world" where
  "getRoom key h =
     (if key = [] then (None, h)
      else
        case Rooms h key of
          Some r \<Rightarrow> (Some r, h)
        | None \<Rightarrow>
            (case Rooms h key of
               Some r \<Rightarrow> (Some r, h)
             | None \<Rightarrow>
                 let r = length (room_heap h)
                 in (Some r,
                     h\<lparr>room_heap := room_heap h @ [NewRoom],
                       Rooms := (Rooms h)(key \<mapsto> r),
                       loops := loops h @ [r],
                       watchers := watchers h @ [(r, key)]\<rparr>)))"

text \<open>The watcher started by \<^verbatim>\<open>getRoom\<close>, once the room's context is done.\<close>

definition watcher_fire :: "string \<Rightarrow> hub_world \<Rightarrow> hub_world" where
  "watcher_fire key h = h\<lparr>Rooms := (Rooms h)(key := None)\<rparr>"

section \<open>Scenarios\<close>

text \<open>
  The client that \<^verbatim>\<open>VideoController\<close> builds for an upgraded connection: an open
  connection and an empty outbound queue of capacity 10.
\<close>

definition new_client :: Client where
  "new_client = \<lparr>Conn = \<lparr>conn_closed = False\<rparr>, send = make_chan 10\<rparr>"

definition world_new :: world where
  "world_new = \<lparr>heap = (\<lambda>c. new_client), room = NewRoom, running = []\<rparr>"

text \<open>Clients 1 and 2 admitted to a fresh room, and a seek command sent by client 1.\<close>

definition world_AB :: world where
  "world_AB = state_of (Run [Register 1, Register 2] world_new)"

definition msg_seek :: Message where
  "msg_seek = \<lparr>Type = CommandSeek, From = Some 1, Time = 85 / 2, Timestamp = 0, payload = []\<rparr>"

text \<open>
  A third client joins, and client 2 has ten undelivered messages in its outbound queue.
\<close>

definition world_B_full :: world where
  "world_B_full =
     (let w = state_of (Run [Register 3] world_AB)
      in w\<lparr>heap := (heap w)
            (2 := new_client\<lparr>send := (make_chan 10)\<lparr>chan_buf := replicate 10 msg_seek\<rparr>\<rparr>)\<rparr>)"

text \<open>
  A handler of client 2, respectively of client 1, has ended while the client is still in
  the set: its deferred close finds the queue empty and closes it.
\<close>

definition world_B_closed :: world where
  "world_B_closed = state_of (deferred_close 2 world_AB)"

definition world_A_closed :: world where
  "world_A_closed = state_of (deferred_close 1 world_AB)"

text \<open>
  Client 1 leaves a room it was alone in, which cancels the room's context; the event
  loop then admits client 2 before it observes the cancellation, and a handler of
  client 2 ends.
\<close>

definition world_late :: world where
  "world_late =
     state_of (deferred_close 2 (state_of (Run [Register 1, Unregister 1, Register 2] world_new)))"

text \<open>Client 2 is full as in \<open>world_B_full\<close>, and a handler of client 3 has ended.\<close>

definition world_B_full_C_closed :: world where
  "world_B_full_C_closed = state_of (deferred_close 3 world_B_full)"

text \<open>A client with one message waiting in its outbound queue.\<close>

definition client_one_queued :: Client where
  "client_one_queued = new_client\<lparr>send := (make_chan 10)\<lparr>chan_buf := [msg_seek]\<rparr>\<rparr>"

text \<open>A decoder that knows four frames, standing for \<^verbatim>\<open>json.Unmarshal\<close>.\<close>

definition frame_table :: "string \<Rightarrow> Message option" where
  "frame_table d =
     (if d = ''seek@7'' then Some \<lparr>Type = CommandSeek, From = None, Time = 85 / 2, Timestamp = 7, payload = []\<rparr>
      else if d = ''seek@9'' then Some \<lparr>Type = CommandSeek, From = None, Time = 85 / 2, Timestamp = 9, payload = []\<rparr>
      else if d = ''error'' then Some \<lparr>Type = CommandError, From = None, Time = 0, Timestamp = 0, payload = []\<rparr>
      else if d = ''stop'' then Some \<lparr>Type = ''stop'', From = None, Time = 0, Timestamp = 0, payload = []\<rparr>
      else None)"

text \<open>The directory of the global \<^verbatim>\<open>hub\<close> at start-up.\<close>

definition hub_empty :: hub_world where
  "hub_empty = \<lparr>Rooms = Map.empty, room_heap = [], loops = [], watchers = []\<rparr>"

section \<open>Auxiliary facts\<close>

text \<open>
  \<^verbatim>\<open>Client.close\<close> never panics: it reaches \<^verbatim>\<open>close(c.send)\<close> only on an open
  queue. It takes a waiting message off a non-empty queue and leaves that queue as it was
  otherwise; only an empty queue ends up closed. Hence the drop branch of
  \<^verbatim>\<open>sendMessage\<close>, taken on a full queue of positive capacity, shortens the queue by
  one message and closes the connection only.
\<close>

lemma Client_close_eq:
  "Client_close c =
     Return (c\<lparr>send := (case chan_buf (send c) of
                          x # xs \<Rightarrow> (send c)\<lparr>chan_buf := xs\<rparr>
                        | [] \<Rightarrow> (send c)\<lparr>chan_closed := True\<rparr>),
               Conn := Conn_Close (Conn c)\<rparr>)"
  by (cases "chan_buf (send c)")
     (simp_all add: Client_close_def chan_try_recv_def chan_close_def)

lemma sendMessage_select_open:
  "\<not> chan_closed (send cl) \<Longrightarrow> \<exists>cl'. sendMessage_select m cl = Return cl'"
  by (simp add: sendMessage_select_def chan_try_send_def Client_close_eq)

lemma sendMessage_select_full:
  "\<not> chan_closed (send cl) \<Longrightarrow> chan_cap (send cl) \<le> length (chan_buf (send cl)) \<Longrightarrow>
   0 < chan_cap (send cl) \<Longrightarrow>
   sendMessage_select m cl =
     Return (cl\<lparr>send := (send cl)\<lparr>chan_buf := tl (chan_buf (send cl))\<rparr>, Conn := Conn_Close (Conn cl)\<rparr>)"
  by (cases "chan_buf (send cl)")
     (simp_all add: sendMessage_select_def chan_try_send_def Client_close_eq)


lemma sendMessage_loop_Return:
  "distinct cs \<Longrightarrow> (\<forall>c\<in>set cs. From m \<noteq> Some c \<longrightarrow> \<not> chan_closed (send (h c))) \<Longrightarrow>
   sendMessage_loop m cs h =
     Return (\<lambda>d. if d \<in> set cs \<and> From m \<noteq> Some d then state_of (sendMessage_select m (h d)) else h d)"
proof (induction cs arbitrary: h)
  case Nil
  then show ?case by simp
next
  case (Cons c cs)
  show ?case
  proof (cases "From m = Some c")
    case True
    with Cons show ?thesis by (auto intro!: ext)
  next
    case False
    with Cons.prems have op: "\<not> chan_closed (send (h c))" by simp
    from Cons.prems have nin: "c \<notin> set cs" and d: "distinct cs" by simp_all
    from sendMessage_select_open[OF op] obtain cl where cl: "sendMessage_select m (h c) = Return cl"
      by blast
    have pre: "\<forall>c'\<in>set cs. From m \<noteq> Some c' \<longrightarrow> \<not> chan_closed (send ((h(c := cl)) c'))"
      using Cons.prems nin by auto
    have "sendMessage_loop m (c # cs) h = sendMessage_loop m cs (h(c := cl))"
      using False cl by simp
    also have "\<dots> = Return (\<lambda>d. if d \<in> set cs \<and> From m \<noteq> Some d
                  then state_of (sendMessage_select m ((h(c := cl)) d)) else (h(c := cl)) d)"
      by (rule Cons.IH[OF d pre])
    also have "\<dots> = Return (\<lambda>d. if d \<in> set (c # cs) \<and> From m \<noteq> Some d
                  then state_of (sendMessage_select m (h d)) else h d)"
      using nin False cl by (auto intro!: ext)
    finally show ?thesis .
  qed
qed


lemma sendMessage_loop_origin:
  "From m = Some c \<Longrightarrow> state_of (sendMessage_loop m cs h) c = h c"
proof (induction cs arbitrary: h)
  case Nil
  then show ?case by simp
next
  case (Cons a cs)
  show ?case
  proof (cases "a = c")
    case True
    with Cons show ?thesis by simp
  next
    case False
    with Cons.prems have ne: "From m \<noteq> Some a" by simp
    show ?thesis
    proof (cases "sendMessage_select m (h a)")
      case (Return cl)
      have "state_of (sendMessage_loop m cs (h(a := cl))) c = (h(a := cl)) c"
        by (rule Cons.IH[OF Cons.prems])
      with ne False Return show ?thesis by simp
    next
      case (Panic p cl)
      with ne False show ?thesis by simp
    qed
  qed
qed


lemma cleanup_loop_Return:
  "distinct cs \<Longrightarrow> (\<forall>c\<in>set cs. \<not> chan_closed (send (h c))) \<Longrightarrow>
   cleanup_loop cs h =
     Return (\<lambda>d. if d \<in> set cs
                  then (h d)\<lparr>send := (send (h d))\<lparr>chan_closed := True\<rparr>, Conn := Conn_Close (Conn (h d))\<rparr>
                  else h d)"
proof (induction cs arbitrary: h)
  case Nil
  then show ?case by simp
next
  case (Cons c cs)
  let ?cl = "(h c)\<lparr>send := (send (h c))\<lparr>chan_closed := True\<rparr>, Conn := Conn_Close (Conn (h c))\<rparr>"
  from Cons.prems have nin: "c \<notin> set cs" and d: "distinct cs"
    and op: "\<not> chan_closed (send (h c))" by simp_all
  have pre: "\<forall>c'\<in>set cs. \<not> chan_closed (send ((h(c := ?cl)) c'))"
    using Cons.prems nin by auto
  have "cleanup_loop (c # cs) h = cleanup_loop cs (h(c := ?cl))"
    using op by (simp add: chan_close_def)
  also have "\<dots> = Return (\<lambda>d. if d \<in> set cs
                  then ((h(c := ?cl)) d)\<lparr>send := (send ((h(c := ?cl)) d))\<lparr>chan_closed := True\<rparr>,
                                         Conn := Conn_Close (Conn ((h(c := ?cl)) d))\<rparr>
                  else (h(c := ?cl)) d)"
    by (rule Cons.IH[OF d pre])
  also have "\<dots> = Return (\<lambda>d. if d \<in> set (c # cs)
                  then (h d)\<lparr>send := (send (h d))\<lparr>chan_closed := True\<rparr>, Conn := Conn_Close (Conn (h d))\<rparr>
                  else h d)"
    using nin by (auto intro!: ext)
  finally show ?case .
qed


lemma sendMessage_Return:
  assumes "clients (room w) = Some cs" "distinct cs"
    and "\<forall>c\<in>set cs. From m \<noteq> Some c \<longrightarrow> \<not> chan_closed (send (heap w c))"
  shows "sendMessage m w =
     Return (w\<lparr>heap := (\<lambda>d. if d \<in> set cs \<and> From m \<noteq> Some d
                           then state_of (sendMessage_select m (heap w d)) else heap w d)\<rparr>)"
  using assms by (simp add: sendMessage_def sendMessage_loop_Return)


lemma cleanup_Return:
  assumes "\<not> cleaned (room w)" "clients (room w) = Some cs" "distinct cs"
    and "\<forall>c\<in>set cs. \<not> chan_closed (send (heap w c))"
  shows "cleanup w =
     Return (w\<lparr>heap := (\<lambda>d. if d \<in> set cs
                  then (heap w d)\<lparr>send := (send (heap w d))\<lparr>chan_closed := True\<rparr>,
                                  Conn := Conn_Close (Conn (heap w d))\<rparr>
                  else heap w d),
               room := (room w)\<lparr>cleaned := True, clients := None\<rparr>\<rparr>)"
  using assms by (simp add: cleanup_def Let_def cleanup_loop_Return)


lemma cleanup_guard: "cleaned (room w) \<Longrightarrow> cleanup w = Return w"
  by (simp add: cleanup_def)

lemma cleanup_second_call: "cleanup w = Return w' \<Longrightarrow> cleanup w' = Return w'"
  by (cases "cleaned (room w)")
     (auto simp add: cleanup_def Let_def split: outcome.splits)

lemma replicate_10: "replicate 10 x = x # replicate 9 x"
  by (simp add: numeral_eq_Suc)

lemmas scen_defs = new_client_def world_new_def world_AB_def msg_seek_def world_B_full_def
  world_B_closed_def world_A_closed_def world_late_def world_B_full_C_closed_def
  client_one_queued_def make_chan_def
  NewRoom_def registerClient_def unregisterClient_def deferred_close_def Client_close_eq
  Conn_Close_def CommandSeek_def

lemmas Command_defs = CommandPlay_def CommandPause_def CommandSeek_def CommandSync_def
  CommandError_def CommandVideoChange_def

section \<open>Broadcast to a client whose queue is full\<close>

text \<open>
  Claim C1, as the code has it. Let \<open>c\<close> be a client of the set, not the sender of
  \<open>m\<close>, whose outbound queue is full, and let no client of the set other than the sender
  have a closed queue. Then the broadcast returns (it does not block), the room and so its
  client set are unchanged (\<open>c\<close> stays a member), the connection of \<open>c\<close> is closed, and
  every other client ends in the state that the same broadcast gives it in the room
  without \<open>c\<close>.
\<close>

theorem sendMessage_full_queue:
  assumes cs: "clients (room w) = Some cs" and dist: "distinct cs" and c: "c \<in> set cs"
    and nfrom: "From m \<noteq> Some c"
    and full: "chan_cap (send (heap w c)) \<le> length (chan_buf (send (heap w c)))"
    and opn: "\<forall>d\<in>set cs. From m \<noteq> Some d \<longrightarrow> \<not> chan_closed (send (heap w d))"
  shows "\<exists>w'. sendMessage m w = Return w' \<and> room w' = room w \<and> clients (room w') = Some cs \<and>
           conn_closed (Conn (heap w' c)) \<and>
           (\<forall>d. d \<noteq> c \<longrightarrow>
              heap w' d =
              heap (state_of (sendMessage m (w\<lparr>room := (room w)\<lparr>clients := Some (removeAll c cs)\<rparr>\<rparr>))) d)"
proof -
  let ?h = "\<lambda>d. if d \<in> set cs \<and> From m \<noteq> Some d
                then state_of (sendMessage_select m (heap w d)) else heap w d"
  let ?w0 = "w\<lparr>room := (room w)\<lparr>clients := Some (removeAll c cs)\<rparr>\<rparr>"
  have r: "sendMessage m w = Return (w\<lparr>heap := ?h\<rparr>)"
    by (rule sendMessage_Return[OF cs dist opn])
  have copen: "\<not> chan_closed (send (heap w c))" using opn c nfrom by blast
  have "sendMessage_select m (heap w c) = Client_close (heap w c)"
    using copen full by (simp add: sendMessage_select_def chan_try_send_def)
  then have cc: "conn_closed (Conn (?h c))"
    using c nfrom by (simp add: Client_close_eq Conn_Close_def)
  have r0: "sendMessage m ?w0 =
      Return (?w0\<lparr>heap := (\<lambda>d. if d \<in> set (removeAll c cs) \<and> From m \<noteq> Some d
                then state_of (sendMessage_select m (heap ?w0 d)) else heap ?w0 d)\<rparr>)"
    by (rule sendMessage_Return) (use dist opn in \<open>simp_all add: distinct_removeAll\<close>)
  have oth: "\<forall>d. d \<noteq> c \<longrightarrow> ?h d = heap (state_of (sendMessage m ?w0)) d"
    by (simp add: r0)
  show ?thesis using r cc oth cs by simp
qed

text \<open>
  The theorem at work: client 1 sends, client 2 is full, client 3 is idle. Client 2 loses
  its connection and stays in the set; client 3 receives the message.
\<close>

theorem sendMessage_full_queue_witness:
  "returns (sendMessage msg_seek world_B_full) \<and>
   conn_closed (Conn (heap (state_of (sendMessage msg_seek world_B_full)) 2)) \<and>
   room (state_of (sendMessage msg_seek world_B_full)) = room world_B_full \<and>
   chan_buf (send (heap (state_of (sendMessage msg_seek world_B_full)) 3)) = [msg_seek]"
proof -
  have e: "chan_buf (send (heap (state_of (sendMessage msg_seek
               (world_B_full\<lparr>room := (room world_B_full)\<lparr>clients := Some [1, 3]\<rparr>\<rparr>))) 3)) = [msg_seek]"
    by (simp add: scen_defs Let_def sendMessage_def sendMessage_select_def chan_try_send_def)
  have p: "clients (room world_B_full) = Some [1, 2, 3]" "From msg_seek \<noteq> Some 2"
    "chan_cap (send (heap world_B_full 2)) \<le> length (chan_buf (send (heap world_B_full 2)))"
    "\<forall>d\<in>set [1, 2, 3]. From msg_seek \<noteq> Some d \<longrightarrow> \<not> chan_closed (send (heap world_B_full d))"
    by (simp_all add: scen_defs Let_def)
  from sendMessage_full_queue[OF p(1) _ _ p(2) p(3) p(4)]
  obtain w' where w': "sendMessage msg_seek world_B_full = Return w'" "room w' = room world_B_full"
      "conn_closed (Conn (heap w' 2))"
      "\<forall>d. d \<noteq> 2 \<longrightarrow> heap w' d =
         heap (state_of (sendMessage msg_seek (world_B_full\<lparr>room := (room world_B_full)\<lparr>clients := Some (removeAll 2 [1, 2, 3])\<rparr>\<rparr>))) d"
    by auto
  from w'(4) have "heap w' 3 = heap (state_of (sendMessage msg_seek (world_B_full\<lparr>room := (room world_B_full)\<lparr>clients := Some [1, 3]\<rparr>\<rparr>))) 3"
    by simp
  with e have "chan_buf (send (heap w' 3)) = [msg_seek]"
    by simp
  with w' show ?thesis by simp
qed

text \<open>
  Against claim C1 as stated: after the broadcast the client with the full queue is still
  in the client set, and its outbound queue is still open. And when another client of the
  set has a closed queue, the broadcast does not return at all.
\<close>

theorem sendMessage_full_queue_not_evicted:
  "From msg_seek \<noteq> Some 2 \<and>
   length (chan_buf (send (heap world_B_full 2))) = chan_cap (send (heap world_B_full 2)) \<and>
   clients (room world_B_full) = Some [1, 2, 3] \<and>
   returns (sendMessage msg_seek world_B_full) \<and>
   clients (room (state_of (sendMessage msg_seek world_B_full))) = Some [1, 2, 3] \<and>
   \<not> chan_closed (send (heap (state_of (sendMessage msg_seek world_B_full)) 2)) \<and>
   \<not> returns (sendMessage msg_seek world_B_full_C_closed)"
  by (simp add: scen_defs Let_def sendMessage_def sendMessage_select_def chan_try_send_def replicate_10)

section \<open>Closing a client\<close>

text \<open>
  Claim C2 at a client with one queued message: \<^verbatim>\<open>close()\<close> returns with the queue
  still open, now empty (the message is gone), and the connection closed; a second
  \<^verbatim>\<open>close()\<close> is then the one that closes the queue.
\<close>

theorem Client_close_keeps_queue_open:
  "\<not> chan_closed (send client_one_queued) \<and>
   chan_buf (send client_one_queued) = [msg_seek] \<and>
   returns (Client_close client_one_queued) \<and>
   \<not> chan_closed (send (state_of (Client_close client_one_queued))) \<and>
   chan_buf (send (state_of (Client_close client_one_queued))) = [] \<and>
   conn_closed (Conn (state_of (Client_close client_one_queued))) \<and>
   chan_closed (send (state_of (Client_close (state_of (Client_close client_one_queued)))))"
  by (simp add: client_one_queued_def new_client_def make_chan_def Client_close_def
      chan_try_recv_def chan_close_def Conn_Close_def)

section \<open>The inbound loop\<close>

text \<open>
  Claim C3, as the code has it. For a frame that deserializes into \<open>msg\<close>, the loop
  recognizes exactly the kinds play, pause, seek, sync and change-video: such a frame is
  stamped with its origin and the receipt instant and submitted, and the loop goes on with
  the remaining reads; a frame of any other kind, \<^verbatim>\<open>error\<close> among them, submits
  nothing, and the loop goes on just the same.
\<close>

theorem receiveHandler_validates_kind:
  "unmarshal d = Some msg \<Longrightarrow>
   receiveHandler unmarshal c ((now, Data d) # rest) =
     (if Type msg = ''play'' \<or> Type msg = ''pause'' \<or> Type msg = ''seek'' \<or> Type msg = ''sync'' \<or>
         Type msg = ''change-video''
      then msg\<lparr>From := Some c, Timestamp := now\<rparr> # receiveHandler unmarshal c rest
      else receiveHandler unmarshal c rest)"
  by (simp add: receiveFrame_def recognized_def Command_defs)

theorem receiveHandler_validates_kind_witness:
  "receiveHandler frame_table 1
     [(100, Data ''stop''), (101, Data ''error''), (102, Data ''seek@7''), (103, ReadError),
      (104, Data ''seek@9'')] =
   [\<lparr>Type = ''seek'', From = Some 1, Time = 85 / 2, Timestamp = 102, payload = []\<rparr>]"
proof -
  have f: "frame_table ''stop'' = Some \<lparr>Type = ''stop'', From = None, Time = 0, Timestamp = 0, payload = []\<rparr>"
    "frame_table ''error'' = Some \<lparr>Type = ''error'', From = None, Time = 0, Timestamp = 0, payload = []\<rparr>"
    "frame_table ''seek@7'' = Some \<lparr>Type = ''seek'', From = None, Time = 85 / 2, Timestamp = 7, payload = []\<rparr>"
    by (simp_all add: frame_table_def Command_defs)
  show ?thesis
    using receiveHandler_validates_kind[where unmarshal = frame_table and d = "''stop''", OF f(1)]
      receiveHandler_validates_kind[where unmarshal = frame_table and d = "''error''", OF f(2)]
      receiveHandler_validates_kind[where unmarshal = frame_table and d = "''seek@7''", OF f(3)]
    by simp
qed

text \<open>
  Against claim C3 as stated: a frame of kind \<^verbatim>\<open>error\<close> is not forwarded.
\<close>

theorem receiveHandler_discards_error:
  "frame_table ''error'' = Some \<lparr>Type = CommandError, From = None, Time = 0, Timestamp = 0, payload = []\<rparr> \<and>
   receiveFrame frame_table 1 100 ''error'' = None \<and>
   receiveHandler frame_table 1 [(100, Data ''error'')] = []"
  by (simp add: frame_table_def receiveFrame_def recognized_def Command_defs)

section \<open>Room teardown\<close>

text \<open>
  Claim C4 in the room \<open>world_late\<close>: the context is cancelled, teardown has not run,
  and the one client of the set has already closed its queue. The first
  \<^verbatim>\<open>cleanup()\<close>, which the event loop runs on \<open>Done\<close>, sets the guard and panics on
  that client; the client set is not cleared.
\<close>

theorem cleanup_late_admission_panics:
  "clients (room world_late) = Some [2] \<and> ctx_done (room world_late) \<and>
   \<not> cleaned (room world_late) \<and>
   cleanup world_late =
     Panic CloseOfClosedChannel (world_late\<lparr>room := (room world_late)\<lparr>cleaned := True\<rparr>\<rparr>) \<and>
   Run [Done] world_late = cleanup world_late"
  by (simp add: scen_defs Let_def cleanup_def chan_close_def)

section \<open>The directory\<close>

text \<open>
  Claim C5. \<^verbatim>\<open>getRoom\<close> returns no room for the empty key and leaves the directory
  as it is; for a non-empty key that the directory maps to a room it returns that room and
  changes nothing; for a non-empty key that is absent it allocates exactly one room (at a
  fresh address, in the state of \<^verbatim>\<open>NewRoom\<close>), maps the key to it, starts its event
  loop and its watcher, and returns it.
\<close>

theorem getRoom_resolves:
  "(key = [] \<longrightarrow> getRoom key h = (None, h)) \<and>
   (key \<noteq> [] \<and> Rooms h key = Some r \<longrightarrow> getRoom key h = (Some r, h)) \<and>
   (key \<noteq> [] \<and> Rooms h key = None \<longrightarrow>
      fst (getRoom key h) = Some (length (room_heap h)) \<and>
      room_heap (snd (getRoom key h)) = room_heap h @ [NewRoom] \<and>
      Rooms (snd (getRoom key h)) = (Rooms h)(key \<mapsto> length (room_heap h)) \<and>
      loops (snd (getRoom key h)) = loops h @ [length (room_heap h)] \<and>
      watchers (snd (getRoom key h)) = watchers h @ [(length (room_heap h), key)])"
  by (simp add: getRoom_def Let_def)

theorem getRoom_resolves_witness:
  "getRoom [] hub_empty = (None, hub_empty) \<and>
   fst (getRoom ''abc'' hub_empty) = Some 0 \<and>
   room_heap (snd (getRoom ''abc'' hub_empty)) = [NewRoom] \<and>
   Rooms (snd (getRoom ''abc'' hub_empty)) ''abc'' = Some 0 \<and>
   loops (snd (getRoom ''abc'' hub_empty)) = [0] \<and>
   getRoom ''abc'' (snd (getRoom ''abc'' hub_empty)) = (Some 0, snd (getRoom ''abc'' hub_empty))"
proof -
  have e: "Rooms hub_empty ''abc'' = None" "room_heap hub_empty = []" "loops hub_empty = []"
    by (simp_all add: hub_empty_def)
  from getRoom_resolves[of "''abc''" hub_empty 0] e
  have n: "fst (getRoom ''abc'' hub_empty) = Some 0"
    "room_heap (snd (getRoom ''abc'' hub_empty)) = [NewRoom]"
    "Rooms (snd (getRoom ''abc'' hub_empty)) = (Rooms hub_empty)(''abc'' \<mapsto> 0)"
    "loops (snd (getRoom ''abc'' hub_empty)) = [0]"
    by simp_all
  from n(3) have p: "Rooms (snd (getRoom ''abc'' hub_empty)) ''abc'' = Some 0" by simp
  from getRoom_resolves[of "[]" hub_empty 0]
  have z: "getRoom [] hub_empty = (None, hub_empty)" by simp
  from getRoom_resolves[of "''abc''" "snd (getRoom ''abc'' hub_empty)" 0] p
  have "getRoom ''abc'' (snd (getRoom ''abc'' hub_empty)) = (Some 0, snd (getRoom ''abc'' hub_empty))"
    by simp
  with n p z show ?thesis by simp
qed

section \<open>The sender is skipped\<close>

text \<open>
  Claim C6. A broadcast leaves the client recorded as the origin of the message exactly as
  it was, whether the broadcast returns or panics on the way: nothing is enqueued on the
  sender's outbound queue.
\<close>

theorem sendMessage_skips_origin:
  "From m = Some c \<Longrightarrow> heap (state_of (sendMessage m w)) c = heap w c"
  by (cases "sendMessage_loop m (case clients (room w) of None \<Rightarrow> [] | Some cs \<Rightarrow> cs) (heap w)")
     (use sendMessage_loop_origin[of m c "case clients (room w) of None \<Rightarrow> [] | Some cs \<Rightarrow> cs" "heap w"]
      in \<open>simp_all add: sendMessage_def\<close>)

theorem sendMessage_skips_origin_witness:
  "From msg_seek = Some 1 \<and> clients (room world_AB) = Some [1, 2] \<and>
   heap (state_of (sendMessage msg_seek world_AB)) 1 = heap world_AB 1 \<and>
   chan_buf (send (heap (state_of (sendMessage msg_seek world_AB)) 1)) = [] \<and>
   chan_buf (send (heap (state_of (sendMessage msg_seek world_AB)) 2)) = [msg_seek]"
  using sendMessage_skips_origin[of msg_seek 1 world_AB]
  by (simp add: scen_defs sendMessage_def sendMessage_select_def chan_try_send_def)

section \<open>Server-assigned timestamps\<close>

text \<open>
  Claim C7. Two frames whose messages differ in the timestamp field only, handled at the
  same instant, have the same outcome, and a message that is submitted carries the instant
  of receipt as its timestamp.
\<close>

theorem receiveFrame_server_timestamp:
  "unmarshal d1 = Some m1 \<Longrightarrow> unmarshal d2 = Some (m1\<lparr>Timestamp := ts\<rparr>) \<Longrightarrow>
   receiveFrame unmarshal c now d1 = receiveFrame unmarshal c now d2 \<and>
   (\<forall>msg. receiveFrame unmarshal c now d1 = Some msg \<longrightarrow> Timestamp msg = now)"
  by (auto simp add: receiveFrame_def)

theorem receiveFrame_server_timestamp_witness:
  "receiveFrame frame_table 1 100 ''seek@7'' = receiveFrame frame_table 1 100 ''seek@9'' \<and>
   receiveFrame frame_table 1 100 ''seek@7'' =
     Some \<lparr>Type = ''seek'', From = Some 1, Time = 85 / 2, Timestamp = 100, payload = []\<rparr>"
proof -
  have f: "frame_table ''seek@7'' = Some \<lparr>Type = ''seek'', From = None, Time = 85 / 2, Timestamp = 7, payload = []\<rparr>"
    "frame_table ''seek@9'' =
       Some (\<lparr>Type = ''seek'', From = None, Time = 85 / 2, Timestamp = 7, payload = []\<rparr>\<lparr>Timestamp := 9\<rparr>)"
    by (simp_all add: frame_table_def Command_defs)
  have r: "receiveFrame frame_table 1 100 ''seek@7'' =
     Some \<lparr>Type = ''seek'', From = Some 1, Time = 85 / 2, Timestamp = 100, payload = []\<rparr>"
    by (simp add: receiveFrame_def recognized_def f(1) Command_defs)
  from receiveFrame_server_timestamp[where unmarshal = frame_table and ?d1.0 = "''seek@7''"
      and ?d2.0 = "''seek@9''", OF f(1) f(2), of 1 100] r
  show ?thesis by simp
qed

section \<open>The wire form\<close>

text \<open>
  Claim C8. The serialization of a message does not depend on its origin, neither as bytes
  nor as the frame written by the outbound loop, and the object written has the keys
  \<^verbatim>\<open>type\<close>, \<^verbatim>\<open>time\<close> (left out when zero) and \<^verbatim>\<open>timestamp\<close>, in this order.
\<close>

theorem Message_wire_form_omits_origin:
  "json_Marshal enc (m\<lparr>From := a\<rparr>) = json_Marshal enc (m\<lparr>From := b\<rparr>) \<and>
   sendHandler_frame enc (m\<lparr>From := a\<rparr>) = sendHandler_frame enc (m\<lparr>From := b\<rparr>) \<and>
   map fst (Message_fields m) =
     (if Time m = 0 then [''type'', ''timestamp''] else [''type'', ''time'', ''timestamp''])"
  by (simp add: json_Marshal_def sendHandler_frame_def Message_fields_def)

section \<open>Closed queues in the client set\<close>




section \<open>Admission after teardown\<close>

text \<open>
  Claim C10. A first \<^verbatim>\<open>cleanup()\<close> that returns leaves the client set nil, and
  \<^verbatim>\<open>registerClient\<close> then panics on the store into the nil map, for every client;
  \<^verbatim>\<open>registerClient\<close> returns exactly when the client set is not nil.
\<close>

theorem registerClient_after_cleanup:
  "(\<not> cleaned (room w) \<and> cleanup w = Return w' \<longrightarrow>
      clients (room w') = None \<and> registerClient c w' = Panic AssignToNilMap w') \<and>
   (returns (registerClient c w) \<longleftrightarrow> clients (room w) \<noteq> None)"
proof -
  have "clients (room w') = None" if "\<not> cleaned (room w)" "cleanup w = Return w'"
    using that by (auto simp add: cleanup_def Let_def split: outcome.splits)
  then show ?thesis
    by (auto simp add: registerClient_def split: option.splits)
qed

theorem registerClient_after_cleanup_witness:
  "\<not> cleaned (room world_AB) \<and> returns (cleanup world_AB) \<and>
   registerClient 3 (state_of (cleanup world_AB)) = Panic AssignToNilMap (state_of (cleanup world_AB)) \<and>
   returns (registerClient 3 world_AB)"
proof -
  have a: "clients (room world_AB) = Some [1, 2]" "\<not> cleaned (room world_AB)"
    "\<forall>c\<in>set [1, 2]. \<not> chan_closed (send (heap world_AB c))"
    by (simp_all add: scen_defs)
  from cleanup_Return[OF a(2) a(1) _ a(3)]
  obtain w' where w': "cleanup world_AB = Return w'" by simp
  from registerClient_after_cleanup[of world_AB w' 3] registerClient_after_cleanup[of world_AB w' 3] a w'
  show ?thesis by simp
qed

end
